theory Spec2Isabelle
  imports Main "HOL-Library.Word" "HOL-Library.Signed_Division"
begin

section \<open>The analytics agent of go-btfs (analytics/analytics.go)\<close>

text \<open>
  A shallow embedding of the data-collection agent: the counters it keeps
  (\<open>dataCollection\<close>), the sampling step \<open>update\<close>, the payload
  construction \<open>getPayload\<close>, the two remote operations \<open>doSendData\<close> and
  \<open>doReportHealthAlert\<close>, the wrapper \<open>retry\<close> and the scheduler loop
  \<open>collectionAgent\<close>. \<open>Initialize\<close>, which fills the identity fields and
  starts the loop as a goroutine, is not part of it.

  Go's \<open>uint64\<close> is \<open>64 word\<close>: \<open>+\<close> and \<open>-\<close> wrap modulo \<open>2 ^ 64\<close>,
  \<open>div\<close> and \<open><\<close> are unsigned. A Go \<open>error\<close> is its message, and an
  \<open>error option\<close> is a value of type \<open>error\<close> that may be \<open>nil\<close> (\<open>None\<close>).
\<close>

subsection \<open>Data\<close>

type_synonym uint64 = "64 word"

text \<open>A \<open>float64\<close> is only ever copied by the agent; it is kept as its 64 bits.\<close>

type_synonym float64 = "64 word"

type_synonym error = string

text \<open>
  \<open>programInfo\<close> without its \<open>node\<close> pointer and \<open>startTime\<close>: what the agent
  reads through them is supplied by the environment \<open>env\<close> below.
\<close>

record programInfo =
  NodeID :: string
  HVal :: string
  CPUInfo :: string
  BTFSVersion :: string
  OSType :: string
  ArchType :: string

record dataCollection = programInfo +
  UpTime :: uint64
  StorageUsed :: uint64
  MemUsed :: uint64
  CPUUsed :: float64
  Upload :: uint64
  Download :: uint64
  TotalUp :: uint64
  TotalDown :: uint64
  BlocksUp :: uint64
  BlocksDown :: uint64
  NumPeers :: uint64

text \<open>The fields of \<open>bitswap.Stat\<close> that \<open>update\<close> reads.\<close>

record Stat =
  DataSent :: uint64
  DataReceived :: uint64
  BlocksSent :: uint64
  BlocksReceived :: uint64
  Peers :: "string list"

definition kilobyte :: uint64 where
  "kilobyte = 1024"

definition maxRetryTimes :: nat where
  "maxRetryTimes = 3"

subsection \<open>Arithmetic helpers\<close>

definition valOrZero :: "uint64 \<Rightarrow> uint64" where
  "valOrZero x = (if x < 0 then 0 else x)"

text \<open>
  \<open>durationToSeconds\<close>: an \<open>int64\<close> count of nanoseconds divided by
  \<open>10 ^ 9\<close> with Go's truncating signed division, converted to \<open>uint64\<close>.
\<close>

definition durationToSeconds :: "64 word \<Rightarrow> uint64" where
  "durationToSeconds duration = word_of_int (sint duration sdiv 1000000000)"

text \<open>
  Lines 144 to 151 of \<open>update\<close>: the assignments made once \<open>bs.Stat()\<close> has
  returned \<open>st\<close>. The two deltas are computed from the stored totals before the
  totals are overwritten.
\<close>

definition update_from_stat :: "Stat \<Rightarrow> dataCollection \<Rightarrow> dataCollection" where
  "update_from_stat st dc =
     dc\<lparr>Upload := valOrZero (DataSent st - TotalUp dc) div kilobyte,
        Download := valOrZero (DataReceived st - TotalDown dc) div kilobyte,
        TotalUp := DataSent st div kilobyte,
        TotalDown := DataReceived st div kilobyte,
        BlocksUp := BlocksSent st,
        BlocksDown := BlocksReceived st,
        NumPeers := of_nat (length (Peers st))\<rparr>"

subsection \<open>The host and the remote service\<close>

text \<open>
  Everything the agent reads from its host node and everything the status
  server answers is outside this file. It is given by an environment of
  scripted answers: the answer to an outside call is a function of the number
  of outside calls made before it (\<open>clock\<close>), so that a collaborator may
  answer differently from one attempt to the next.
\<close>

datatype exchange_read =
    NotBitswap            \<comment> \<open>the type assertion on \<open>dc.node.Exchange\<close> fails\<close>
  | StatFailed error      \<comment> \<open>\<open>bs.Stat()\<close> returns an error\<close>
  | StatOk Stat

text \<open>What one call of \<open>update\<close> reads from the runtime and the node.\<close>

record host_read =
  since_start :: "64 word"           \<comment> \<open>\<open>time.Since(dc.startTime)\<close>, in nanoseconds\<close>
  cpu_Percent :: "float64 option"    \<comment> \<open>\<open>cpus[0]\<close>, or \<open>None\<close> when \<open>cpu.Percent\<close> fails\<close>
  HeapAlloc :: uint64
  GetStorageUsage :: "uint64 option" \<comment> \<open>\<open>None\<close> when the call fails\<close>
  Exchange :: exchange_read

record config =
  Analytics :: bool                  \<comment> \<open>\<open>Experimental.Analytics\<close>\<close>
  StatusServerDomain :: string       \<comment> \<open>\<open>Services.StatusServerDomain\<close>\<close>
  StorageMax :: string               \<comment> \<open>\<open>Datastore.StorageMax\<close>\<close>

text \<open>
  \<open>Repo.Config()\<close> returns a pointer and an error. With a \<open>nil\<close> error the
  pointer is a configuration; with an error the pointer is whatever the
  repository returned with it, \<open>nil\<close> (\<open>None\<close>) by Go's convention.
\<close>

datatype config_read =
    ConfigOk config
  | ConfigErr error "config option"

text \<open>The record \<open>nd\<close> that \<open>getPayload\<close> fills, without its time stamp.\<close>

record Node =
  nd_NodeId :: string
  nd_BtfsVersion :: string
  nd_ArchType :: string
  nd_BlocksDown :: uint64
  nd_BlocksUp :: uint64
  nd_CpuInfo :: string
  nd_CpuUsed :: float64
  nd_Download :: uint64
  nd_MemoryUsed :: uint64
  nd_OsType :: string
  nd_PeersConnected :: uint64
  nd_StorageUsed :: uint64
  nd_UpTime :: uint64
  nd_Upload :: uint64
  nd_TotalUpload :: uint64
  nd_TotalDownload :: uint64
  nd_StorageVolumeCap :: uint64

text \<open>
  The envelope \<open>sm\<close> of \<open>doSendData\<close>. The payload bytes are kept as the
  record they serialise.
\<close>

record SignedMetrics =
  sm_Payload :: Node
  sm_Signature :: string
  sm_PublicKey :: string

text \<open>The record \<open>n\<close> of \<open>doReportHealthAlert\<close>, without its time stamp.\<close>

record NodeHealth =
  n_BtfsVersion :: string
  n_FailurePoint :: string
  n_NodeId :: string

text \<open>The calls that reach the network, in the order they are made.\<close>

datatype rpc =
    Dial string                   \<comment> \<open>\<open>grpc.DialContext\<close> to the given address\<close>
  | UpdateMetrics SignedMetrics
  | CollectHealth NodeHealth

record env =
  read_host :: "nat \<Rightarrow> host_read"
  repo_Config :: "nat \<Rightarrow> config_read"
  ParseBytes :: "string \<Rightarrow> uint64 option"         \<comment> \<open>\<open>humanize.ParseBytes\<close>\<close>
  proto_Marshal :: "nat \<Rightarrow> error option"           \<comment> \<open>the error of \<open>proto.Marshal(nd)\<close>\<close>
  PrivateKey :: "(nat \<Rightarrow> error + string) option" \<comment> \<open>\<open>None\<close> is \<open>nil\<close>; a key is its \<open>Sign\<close>\<close>
  MarshalPublicKey :: "nat \<Rightarrow> error + string"
  grpc_Dial :: "nat \<Rightarrow> error option"
  rpc_UpdateMetrics :: "nat \<Rightarrow> error option"
  rpc_CollectHealth :: "nat \<Rightarrow> error option"

record world =
  clock :: nat
  calls :: "rpc list"

type_synonym agent = "dataCollection \<times> world"

definition tick :: "world \<Rightarrow> world" where
  "tick w = w\<lparr>clock := Suc (clock w)\<rparr>"

definition call :: "rpc \<Rightarrow> world \<Rightarrow> world" where
  "call r w = w\<lparr>calls := calls w @ [r]\<rparr>"

subsection \<open>The retry wrapper\<close>

text \<open>
  \<open>retry\<close> hands its operation to \<open>backoff.Retry\<close> with the policy
  \<open>backoff.WithMaxRetries(backoff.NewExponentialBackOff(), maxRetryTimes)\<close>
  of the package \<open>github.com/cenkalti/backoff\<close>. The policy counts the calls of
  \<open>NextBackOff\<close> since the last \<open>Reset\<close>: with a positive \<open>maxTries\<close> it
  answers \<open>Stop\<close> (\<open>None\<close>) once \<open>maxTries\<close> of them have been granted, and
  otherwise it counts one more and passes the call to its delegate; with
  \<open>maxTries = 0\<close> it does not count and always passes the call on. \<open>Retry\<close>
  resets the policy, runs the operation, returns on a \<open>nil\<close> error, and
  otherwise asks the policy: on \<open>Stop\<close> it returns the last error, else it
  waits and runs the operation again. The waiting times of the exponential
  delegate, and its own stop after 15 minutes of elapsed time, are real time
  and are not represented: the delegate always grants.

  With \<open>maxTries = 0\<close> the loop need not end, so \<open>RetryLoop\<close> is a partial
  function: \<open>None\<close> is a run that never returns.
\<close>

record backOffTries =
  maxTries :: nat
  numTries :: nat

definition WithMaxRetries :: "nat \<Rightarrow> backOffTries" where
  "WithMaxRetries max_retries = \<lparr>maxTries = max_retries, numTries = 0\<rparr>"

definition Reset :: "backOffTries \<Rightarrow> backOffTries" where
  "Reset b = b\<lparr>numTries := 0\<rparr>"

definition NextBackOff :: "backOffTries \<Rightarrow> backOffTries option" where
  "NextBackOff b =
     (if 0 < maxTries b then
        (if maxTries b \<le> numTries b then None
         else Some (b\<lparr>numTries := numTries b + 1\<rparr>))
      else Some b)"

partial_function (option) RetryLoop ::
  "('s \<Rightarrow> error option \<times> 's) \<Rightarrow> backOffTries \<Rightarrow> 's \<Rightarrow> (error option \<times> 's) option" where
  "RetryLoop operation b s =
     (case operation s of
        (None, s') \<Rightarrow> Some (None, s')
      | (Some err, s') \<Rightarrow>
          (case NextBackOff b of
             None \<Rightarrow> Some (Some err, s')
           | Some b' \<Rightarrow> RetryLoop operation b' s'))"

definition Retry ::
  "('s \<Rightarrow> error option \<times> 's) \<Rightarrow> backOffTries \<Rightarrow> 's \<Rightarrow> (error option \<times> 's) option" where
  "Retry operation b s = RetryLoop operation (Reset b) s"

text \<open>
  \<open>retry\<close> drops the error that \<open>backoff.Retry\<close> returns and goes on in the
  state it leaves. Its policy has the positive bound \<open>maxRetryTimes\<close>, with
  which \<open>Retry\<close> always returns (lemma \<open>retry_returns\<close> below).
\<close>

definition retry :: "('s \<Rightarrow> error option \<times> 's) \<Rightarrow> 's \<Rightarrow> 's" where
  "retry f s = snd (the (Retry f (WithMaxRetries maxRetryTimes) s))"

subsection \<open>The two remote operations\<close>

text \<open>
  \<open>getGrpcConn\<close> returns the connection (kept as the address dialled) or an
  error. The deferred \<open>cancel\<close> and \<open>conn.Close\<close> of its callers release
  resources only.
\<close>

definition getGrpcConn :: "env \<Rightarrow> world \<Rightarrow> (error + string) \<times> world" where
  "getGrpcConn env w =
     (case repo_Config env (clock w) of
        ConfigErr err c \<Rightarrow> (Inl (''failed to load config: '' @ err), tick w)
      | ConfigOk config \<Rightarrow>
          (let w1 = tick w;
               w2 = tick (call (Dial (StatusServerDomain config)) w1)
           in case grpc_Dial env (clock w1) of
                Some err \<Rightarrow> (Inl (''failed to connect to status server: '' @ err), w2)
              | None \<Rightarrow> (Inr (StatusServerDomain config), w2)))"

definition doReportHealthAlert :: "env \<Rightarrow> string \<Rightarrow> agent \<Rightarrow> error option \<times> agent" where
  "doReportHealthAlert env failurePoint s =
     (case s of (dc, w) \<Rightarrow>
        (case getGrpcConn env w of
           (Inl err, w1) \<Rightarrow> (Some err, (dc, w1))
         | (Inr conn, w1) \<Rightarrow>
             (let n = \<lparr>n_BtfsVersion = BTFSVersion dc,
                      n_FailurePoint = failurePoint,
                      n_NodeId = NodeID dc\<rparr>
              in (rpc_CollectHealth env (clock w1),
                  (dc, tick (call (CollectHealth n) w1))))))"

definition reportHealthAlert :: "env \<Rightarrow> string \<Rightarrow> agent \<Rightarrow> agent" where
  "reportHealthAlert env failurePoint s = retry (doReportHealthAlert env failurePoint) s"

subsection \<open>Sampling\<close>

text \<open>
  \<open>update\<close> has no result: when the exchange statistics cannot be read it
  reports a health alert and returns, and its caller cannot tell.
\<close>

definition update :: "env \<Rightarrow> agent \<Rightarrow> agent" where
  "update env s =
     (case s of (dc, w) \<Rightarrow>
        (let h = read_host env (clock w);
             w1 = tick w;
             dc1 = dc\<lparr>UpTime := durationToSeconds (since_start h)\<rparr>;
             dc2 = (case cpu_Percent h of Some c \<Rightarrow> dc1\<lparr>CPUUsed := c\<rparr> | None \<Rightarrow> dc1);
             dc3 = dc2\<lparr>MemUsed := HeapAlloc h div kilobyte\<rparr>;
             dc4 = (case GetStorageUsage h of
                      Some storage \<Rightarrow> dc3\<lparr>StorageUsed := storage div kilobyte\<rparr>
                    | None \<Rightarrow> dc3)
         in case Exchange h of
              NotBitswap \<Rightarrow>
                reportHealthAlert env
                  (''failed to perform dc.node.Exchange.('' @ ''*bitswap.Bitswap) type assertion'')
                  (dc4, w1)
            | StatFailed err \<Rightarrow>
                reportHealthAlert env (''failed to perform bs.Stat() call: '' @ err) (dc4, w1)
            | StatOk st \<Rightarrow> (update_from_stat st dc4, w1)))"

text \<open>
  Successive sampling steps on a list of statistics, each read successfully:
  the \<open>Upload\<close> value every step computes.
\<close>

fun uploads :: "dataCollection \<Rightarrow> Stat list \<Rightarrow> uint64 list" where
  "uploads dc [] = []"
| "uploads dc (st # sts) =
     Upload (update_from_stat st dc) # uploads (update_from_stat st dc) sts"

subsection \<open>Building, signing and sending\<close>

definition getPayload :: "env \<Rightarrow> agent \<Rightarrow> (error + Node) \<times> world" where
  "getPayload env s =
     (case s of (dc, w) \<Rightarrow>
        (let cap = (case repo_Config env (clock w) of
                      ConfigOk config \<Rightarrow>
                        (case ParseBytes env (StorageMax config) of
                           Some storageMax \<Rightarrow> storageMax
                         | None \<Rightarrow> 0)
                    | ConfigErr err c \<Rightarrow> 0);
             w1 = tick w;
             nd = \<lparr>nd_NodeId = NodeID dc,
                   nd_BtfsVersion = BTFSVersion dc,
                   nd_ArchType = ArchType dc,
                   nd_BlocksDown = BlocksDown dc,
                   nd_BlocksUp = BlocksUp dc,
                   nd_CpuInfo = CPUInfo dc,
                   nd_CpuUsed = CPUUsed dc,
                   nd_Download = Download dc,
                   nd_MemoryUsed = MemUsed dc,
                   nd_OsType = OSType dc,
                   nd_PeersConnected = NumPeers dc,
                   nd_StorageUsed = StorageUsed dc,
                   nd_UpTime = UpTime dc,
                   nd_Upload = Upload dc,
                   nd_TotalUpload = TotalUp dc,
                   nd_TotalDownload = TotalDown dc,
                   nd_StorageVolumeCap = cap\<rparr>
         in case proto_Marshal env (clock w1) of
              Some err \<Rightarrow> (Inl err, tick w1)
            | None \<Rightarrow> (Inr nd, tick w1)))"

text \<open>
  \<open>doSendData\<close>. In the branch of the missing private key the variable
  \<open>err\<close> that is returned is the one \<open>getPayload\<close> assigned, which is \<open>nil\<close>
  there: the branch returns \<open>None\<close>.
\<close>

definition doSendData :: "env \<Rightarrow> agent \<Rightarrow> error option \<times> agent" where
  "doSendData env s =
     (case update env s of (dc, w) \<Rightarrow>
        (case getPayload env (dc, w) of
           (Inl err, w1) \<Rightarrow>
             (Some err,
              reportHealthAlert env
                (''failed to marshal dataCollection object to a byte array: '' @ err) (dc, w1))
         | (Inr payload, w1) \<Rightarrow>
             (case PrivateKey env of
                None \<Rightarrow> (None, reportHealthAlert env ''node's private key is null'' (dc, w1))
              | Some Sign \<Rightarrow>
                  (case Sign (clock w1) of
                     Inl err \<Rightarrow>
                       (Some err,
                        reportHealthAlert env
                          (''failed to sign raw data with node private key: '' @ err)
                          (dc, tick w1))
                   | Inr signature \<Rightarrow>
                       (let w2 = tick w1 in
                        case MarshalPublicKey env (clock w2) of
                          Inl err \<Rightarrow>
                            (Some err,
                             reportHealthAlert env
                               (''failed to marshal node public key: '' @ err) (dc, tick w2))
                        | Inr publicKey \<Rightarrow>
                            (let sm = \<lparr>sm_Payload = payload,
                                       sm_Signature = signature,
                                       sm_PublicKey = publicKey\<rparr>
                             in case getGrpcConn env (tick w2) of
                                  (Inl err, w3) \<Rightarrow> (Some err, (dc, w3))
                                | (Inr conn, w3) \<Rightarrow>
                                    (rpc_UpdateMetrics env (clock w3),
                                     (dc, tick (call (UpdateMetrics sm) w3)))))))))"

definition sendData :: "env \<Rightarrow> agent \<Rightarrow> agent" where
  "sendData env s = retry (doSendData env) s"

subsection \<open>The scheduler\<close>

text \<open>
  The goroutine either is still running, in some state, or has panicked,
  which ends the process.
\<close>

datatype 'a goroutine = Panic | Running 'a

text \<open>
  One consent check and, if granted, one cycle: the body the agent runs once
  at start and once per tick. The error of \<open>Repo.Config()\<close> is discarded and
  the returned pointer is dereferenced; a \<open>nil\<close> pointer panics.
\<close>

definition cycle :: "env \<Rightarrow> agent \<Rightarrow> agent goroutine" where
  "cycle env s =
     (case s of (dc, w) \<Rightarrow>
        (case repo_Config env (clock w) of
           ConfigOk config \<Rightarrow>
             Running (if Analytics config then sendData env (dc, tick w) else (dc, tick w))
         | ConfigErr err (Some config) \<Rightarrow>
             Running (if Analytics config then sendData env (dc, tick w) else (dc, tick w))
         | ConfigErr err None \<Rightarrow> Panic))"

text \<open>The loop \<open>for range tick.C\<close>, on the first \<open>n\<close> ticks of the ticker.\<close>

fun heartbeats :: "env \<Rightarrow> nat \<Rightarrow> agent \<Rightarrow> agent goroutine" where
  "heartbeats env 0 s = Running s"
| "heartbeats env (Suc n) s =
     (case cycle env s of
        Panic \<Rightarrow> Panic
      | Running s' \<Rightarrow> heartbeats env n s')"

definition collectionAgent :: "env \<Rightarrow> nat \<Rightarrow> agent \<Rightarrow> agent goroutine" where
  "collectionAgent env n s =
     (case cycle env s of
        Panic \<Rightarrow> Panic
      | Running s' \<Rightarrow> heartbeats env n s')"

text \<open>How many calls of each remote operation a log holds.\<close>

fun is_Dial :: "rpc \<Rightarrow> bool" where
  "is_Dial (Dial a) = True"
| "is_Dial r = False"

fun is_UpdateMetrics :: "rpc \<Rightarrow> bool" where
  "is_UpdateMetrics (UpdateMetrics sm) = True"
| "is_UpdateMetrics r = False"

fun is_CollectHealth :: "rpc \<Rightarrow> bool" where
  "is_CollectHealth (CollectHealth n) = True"
| "is_CollectHealth r = False"

text \<open>An operation with a counter of its invocations beside its state.\<close>

definition counted ::
  "('s \<Rightarrow> error option \<times> 's) \<Rightarrow> nat \<times> 's \<Rightarrow> error option \<times> (nat \<times> 's)" where
  "counted f cs = (case f (snd cs) of (r, s') \<Rightarrow> (r, (Suc (fst cs), s')))"

subsection \<open>Fixtures\<close>

text \<open>
  A freshly allocated \<open>dataCollection\<close> of a node named N1, a host on which
  every read succeeds, and a status server that accepts every call.
\<close>

definition dc0 :: dataCollection where
  "dc0 = \<lparr>NodeID = ''N1'', HVal = ''h'', CPUInfo = ''cpu'', BTFSVersion = ''1.0'',
          OSType = ''linux'', ArchType = ''amd64'',
          UpTime = 0, StorageUsed = 0, MemUsed = 0, CPUUsed = 0,
          Upload = 0, Download = 0, TotalUp = 0, TotalDown = 0,
          BlocksUp = 0, BlocksDown = 0, NumPeers = 0\<rparr>"

definition w0 :: world where
  "w0 = \<lparr>clock = 0, calls = []\<rparr>"

definition stat0 :: Stat where
  "stat0 = \<lparr>DataSent = 0, DataReceived = 0, BlocksSent = 0, BlocksReceived = 0, Peers = []\<rparr>"

definition host0 :: host_read where
  "host0 = \<lparr>since_start = 0, cpu_Percent = Some 0, HeapAlloc = 0,
            GetStorageUsage = Some 0, Exchange = StatOk stat0\<rparr>"

definition config0 :: config where
  "config0 = \<lparr>Analytics = True, StatusServerDomain = ''status.example:443'',
              StorageMax = ''10GB''\<rparr>"

definition env0 :: env where
  "env0 = \<lparr>read_host = (\<lambda>k. host0),
           repo_Config = (\<lambda>k. ConfigOk config0),
           ParseBytes = (\<lambda>s. None),
           proto_Marshal = (\<lambda>k. None),
           PrivateKey = Some (\<lambda>k. Inr ''sig''),
           MarshalPublicKey = (\<lambda>k. Inr ''pub''),
           grpc_Dial = (\<lambda>k. None),
           rpc_UpdateMetrics = (\<lambda>k. None),
           rpc_CollectHealth = (\<lambda>k. None)\<rparr>"


text \<open>An operation on a counter state that fails while the state is below \<open>k\<close>.\<close>

definition fails_until :: "nat \<Rightarrow> nat \<Rightarrow> error option \<times> nat" where
  "fails_until k s = (if s < k then Some ''unavailable'' else None, Suc s)"

definition always_fails :: "nat \<Rightarrow> error option \<times> nat" where
  "always_fails s = (Some ''unavailable'', Suc s)"

section \<open>Properties\<close>

subsection \<open>Shared lemmas\<close>

lemmas retry_simps =
  RetryLoop.simps Retry_def retry_def Reset_def WithMaxRetries_def NextBackOff_def
  maxRetryTimes_def

lemmas agent_simps =
  sendData_def doSendData_def update_def getPayload_def getGrpcConn_def
  reportHealthAlert_def doReportHealthAlert_def update_from_stat_def
  tick_def call_def Let_def valOrZero_def kilobyte_def durationToSeconds_def

lemmas fixture_simps = env0_def host0_def stat0_def config0_def dc0_def w0_def

lemma valOrZero_id: "valOrZero x = x"
  by (simp add: valOrZero_def)

lemma nat_wrap_sub:
  fixes a b m :: nat
  assumes "a < m" and "b < m"
  shows "(m + a - b) mod m = (if b \<le> a then a - b else a + m - b)"
proof (cases "b \<le> a")
  case True
  then have "m + a - b = (a - b) + m" by simp
  then have "(m + a - b) mod m = (a - b) mod m" by (simp only: mod_add_self2)
  also have "\<dots> = a - b" using assms(1) by simp
  finally show ?thesis using True by simp
next
  case False
  then have "m + a - b < m" using assms(2) by simp
  then show ?thesis using False by simp
qed

lemma unat_sub_wraps: "unat ((a::uint64) - b) = (2 ^ 64 + unat a - unat b) mod 2 ^ 64"
proof -
  have a: "unat a < 2 ^ 64" and b: "unat b < 2 ^ 64"
    using unsigned_less [of a, where ?'a = nat] unsigned_less [of b, where ?'a = nat]
    by simp_all
  have "unat (a - b) =
        (if unat b \<le> unat a then unat a - unat b else unat a + 2 ^ 64 - unat b)"
    by (simp add: unat_sub_if')
  then show ?thesis
    by (simp only: nat_wrap_sub [OF a b])
qed

text \<open>
  With a positive bound the retried run returns, and whatever the operation
  leaves invariant, the retried run leaves invariant.
\<close>

lemma RetryLoop_returns:
  "0 < maxTries b \<Longrightarrow> (\<And>s. P s \<Longrightarrow> P (snd (f s))) \<Longrightarrow> P s \<Longrightarrow>
   \<exists>r. RetryLoop f b s = Some r \<and> P (snd r)"
proof (induction "maxTries b - numTries b" arbitrary: b s)
  case 0
  then have stop: "NextBackOff b = None" by (simp add: NextBackOff_def)
  obtain r s' where op: "f s = (r, s')" by (cases "f s")
  have s': "P s'" using "0.prems"(2) [OF "0.prems"(3)] op by simp
  show ?case using op stop s'
    by (cases r) (simp_all add: RetryLoop.simps [of f b s])
next
  case (Suc n)
  let ?b' = "b\<lparr>numTries := numTries b + 1\<rparr>"
  have go: "NextBackOff b = Some ?b'"
    using Suc.hyps(2) Suc.prems(1) by (simp add: NextBackOff_def)
  obtain r s' where op: "f s = (r, s')" by (cases "f s")
  have s': "P s'" using Suc.prems(2) [OF Suc.prems(3)] op by simp
  show ?case
  proof (cases r)
    case None
    then show ?thesis using op s' by (simp add: RetryLoop.simps [of f b s])
  next
    case (Some err)
    have "n = maxTries ?b' - numTries ?b'" using Suc.hyps(2) by simp
    moreover have "0 < maxTries ?b'" using Suc.prems(1) by simp
    ultimately have "\<exists>r. RetryLoop f ?b' s' = Some r \<and> P (snd r)"
      using Suc.hyps(1) [of ?b' s'] Suc.prems(2) s' by blast
    then show ?thesis using op Some go by (simp add: RetryLoop.simps [of f b s])
  qed
qed

lemma retry_bound_positive: "0 < maxTries (Reset (WithMaxRetries maxRetryTimes))"
  by (simp add: Reset_def WithMaxRetries_def maxRetryTimes_def)

lemma retry_returns: "\<exists>r. Retry f (WithMaxRetries maxRetryTimes) s = Some r"
  using RetryLoop_returns [OF retry_bound_positive, where P = "\<lambda>s. True" and f = f and s = s]
  by (auto simp add: Retry_def)

lemma retry_preserves:
  assumes "\<And>s. P s \<Longrightarrow> P (snd (f s))" and "P s"
  shows "P (retry f s)"
proof -
  from RetryLoop_returns [OF retry_bound_positive, of P f s] assms
  obtain r where "RetryLoop f (Reset (WithMaxRetries maxRetryTimes)) s = Some r"
    and "P (snd r)"
    by blast
  then show ?thesis by (simp add: retry_def Retry_def)
qed

text \<open>
  With the bound 0 the policy never stops: an operation that fails at every
  invocation is retried without end.
\<close>

lemma RetryLoop_unbounded:
  assumes "maxTries b = 0" and "\<forall>s. fst (f s) \<noteq> None"
  shows "RetryLoop f b s = None"
proof (cases "RetryLoop f b s")
  case None
  then show ?thesis .
next
  case (Some y)
  have "\<not> (maxTries b = 0 \<and> (\<forall>s. fst (f s) \<noteq> None))"
  proof (rule RetryLoop.raw_induct
      [where P = "\<lambda>operation b s y. \<not> (maxTries b = 0 \<and> (\<forall>s. fst (operation s) \<noteq> None))",
       OF _ Some])
    fix loop operation b' s' y'
    assume IH: "\<And>operation b s y. loop operation b s = Some y \<Longrightarrow>
                  \<not> (maxTries b = 0 \<and> (\<forall>s. fst (operation s) \<noteq> None))"
      and body: "(case operation s' of
                    (None, s') \<Rightarrow> Some (None, s')
                  | (Some err, s') \<Rightarrow>
                      (case NextBackOff b' of
                         None \<Rightarrow> Some (Some err, s')
                       | Some b' \<Rightarrow> loop operation b' s')) = Some y'"
    show "\<not> (maxTries b' = 0 \<and> (\<forall>s. fst (operation s) \<noteq> None))"
    proof
      assume h: "maxTries b' = 0 \<and> (\<forall>s. fst (operation s) \<noteq> None)"
      then obtain err s2 where op: "operation s' = (Some err, s2)"
        by (metis option.exhaust prod.collapse)
      have "NextBackOff b' = Some b'" using h by (simp add: NextBackOff_def)
      then have "loop operation b' s2 = Some y'" using body op by simp
      then show False using IH h by blast
    qed
  qed
  then show ?thesis using assms by simp
qed

text \<open>The alert path never touches the counters.\<close>

lemma doReportHealthAlert_dc: "fst (snd (doReportHealthAlert env fp s)) = fst s"
  by (simp add: doReportHealthAlert_def Let_def split: prod.splits sum.splits)

lemma reportHealthAlert_dc: "fst (reportHealthAlert env fp s) = fst s"
proof -
  have "fst (retry (doReportHealthAlert env fp) s) = fst s"
    by (rule retry_preserves [where P = "\<lambda>t. fst t = fst s"])
       (simp_all add: doReportHealthAlert_dc)
  then show ?thesis by (simp add: reportHealthAlert_def)
qed

text \<open>After \<open>update\<close>, one attempt of \<open>doSendData\<close> only reads the counters.\<close>

lemma doSendData_dc: "fst (snd (doSendData env s)) = fst (update env s)"
  by (simp add: doSendData_def Let_def reportHealthAlert_dc
      split: prod.splits sum.splits option.splits)

lemma update_StatOk:
  "Exchange (read_host env (clock w)) = StatOk st \<Longrightarrow>
   TotalUp (fst (update env (dc, w))) = DataSent st div kilobyte
   \<and> TotalDown (fst (update env (dc, w))) = DataReceived st div kilobyte"
  by (simp add: update_def Let_def update_from_stat_def split: option.splits)

lemma cycle_no_consent:
  "repo_Config env (clock w) = ConfigOk c \<Longrightarrow> \<not> Analytics c \<Longrightarrow>
   cycle env (dc, w) = Running (dc, tick w)"
  by (simp add: cycle_def)

lemma heartbeats_no_consent:
  "(\<And>k. \<exists>c. repo_Config env k = ConfigOk c \<and> \<not> Analytics c) \<Longrightarrow>
   heartbeats env n (dc, w) = Running (dc, w\<lparr>clock := clock w + n\<rparr>)"
proof (induction n arbitrary: w)
  case 0
  then show ?case by simp
next
  case (Suc n)
  obtain c where "repo_Config env (clock w) = ConfigOk c" and "\<not> Analytics c"
    using Suc.prems by blast
  then have "cycle env (dc, w) = Running (dc, tick w)" by (rule cycle_no_consent)
  then show ?case using Suc.IH [OF Suc.prems, of "tick w"] by (simp add: tick_def)
qed

text \<open>
  A panic of the scheduler has one cause only: a \<open>nil\<close> configuration. When
  every read of the configuration succeeds the agent is still running after
  any number of ticks, whatever the sampler, the signer and the server do.
\<close>

lemma cycle_Running:
  "repo_Config env (clock (snd s)) = ConfigOk c \<Longrightarrow> \<exists>s'. cycle env s = Running s'"
  by (cases s) (simp add: cycle_def)

lemma heartbeats_Running:
  "(\<And>k. \<exists>c. repo_Config env k = ConfigOk c) \<Longrightarrow> \<exists>s'. heartbeats env n s = Running s'"
proof (induction n arbitrary: s)
  case 0
  then show ?case by simp
next
  case (Suc n)
  obtain c where "repo_Config env (clock (snd s)) = ConfigOk c" using Suc.prems by blast
  then obtain s1 where "cycle env s = Running s1" using cycle_Running by blast
  then show ?case using Suc.IH [OF Suc.prems, of s1] by simp
qed

subsection \<open>Counter arithmetic\<close>

text \<open>
  C1. The claim: the interval value is \<open>max(0, new - previous) / 1024\<close>, and is
  0 whenever the new raw counter is below the stored one. The code does not
  clamp: with a stored total of 2000 and a new counter of 1000 the \<open>Upload\<close>
  written by \<open>update\<close> is \<open>(2 ^ 64 - 1000) div 1024\<close>, not 0.
\<close>

theorem counter_decrease_wraps:
  "Upload (update_from_stat (st\<lparr>DataSent := 1000\<rparr>) (dc\<lparr>TotalUp := 2000\<rparr>))
     = 18014398509481983
   \<and> Upload (update_from_stat (st\<lparr>DataSent := 1000\<rparr>) (dc\<lparr>TotalUp := 2000\<rparr>)) \<noteq> 0
   \<and> Download (update_from_stat (st\<lparr>DataReceived := 1000\<rparr>) (dc\<lparr>TotalDown := 2000\<rparr>))
     = 18014398509481983"
  by (simp add: update_from_stat_def valOrZero_def kilobyte_def)


text \<open>
  The numbers of the scenario come out only from a state in which the field
  \<open>TotalUp\<close>, which \<open>update\<close> keeps in kilobytes, holds the byte count 1000.
\<close>

lemma step_from_stored_1000:
  "Upload (update_from_stat (st\<lparr>DataSent := 1500, DataReceived := 2600\<rparr>)
             (dc\<lparr>TotalUp := 1000, TotalDown := 2000\<rparr>)) = 0
   \<and> TotalUp (update_from_stat (st\<lparr>DataSent := 1500, DataReceived := 2600\<rparr>)
             (dc\<lparr>TotalUp := 1000, TotalDown := 2000\<rparr>)) = 1"
  by (simp add: update_from_stat_def valOrZero_def kilobyte_def)

text \<open>
  C3. The claim: after a successful sampling step the stored totals are the raw
  byte counters just read. They are not: they are stored in kilobytes. Reading
  1500 bytes sent leaves a \<open>TotalUp\<close> of 1.
\<close>

theorem stored_total_is_not_raw:
  "TotalUp (fst (update
      (env0\<lparr>read_host := \<lambda>k. host0\<lparr>Exchange := StatOk (stat0\<lparr>DataSent := 1500\<rparr>)\<rparr>\<rparr>)
      (dc0, w0))) \<noteq> 1500"
  by (simp add: agent_simps fixture_simps)

text \<open>
  C3, as amended. When the exchange statistics are read successfully, the
  totals stored by \<open>update\<close> are the counters just read divided by 1024, and
  they are what one whole attempt of \<open>doSendData\<close> leaves behind, whatever the
  payload construction, the signature, the connection and the server do.
\<close>

theorem totals_in_kilobytes:
  assumes "Exchange (read_host env (clock w)) = StatOk st"
  shows "TotalUp (fst (update env (dc, w))) = DataSent st div kilobyte
         \<and> TotalDown (fst (update env (dc, w))) = DataReceived st div kilobyte
         \<and> TotalUp (fst (snd (doSendData env (dc, w)))) = DataSent st div kilobyte
         \<and> TotalDown (fst (snd (doSendData env (dc, w)))) = DataReceived st div kilobyte"
  using update_StatOk [OF assms, of dc] by (simp add: doSendData_dc)

theorem totals_in_kilobytes_witness:
  "Exchange (read_host
       (env0\<lparr>read_host :=
                \<lambda>k. host0\<lparr>Exchange := StatOk (stat0\<lparr>DataSent := 1500, DataReceived := 2600\<rparr>)\<rparr>,
             rpc_UpdateMetrics := \<lambda>k. Some ''unavailable''\<rparr>) (clock w0))
     = StatOk (stat0\<lparr>DataSent := 1500, DataReceived := 2600\<rparr>)
   \<and> fst (doSendData
       (env0\<lparr>read_host :=
                \<lambda>k. host0\<lparr>Exchange := StatOk (stat0\<lparr>DataSent := 1500, DataReceived := 2600\<rparr>)\<rparr>,
             rpc_UpdateMetrics := \<lambda>k. Some ''unavailable''\<rparr>) (dc0, w0))
     = Some ''unavailable''
   \<and> TotalUp (fst (snd (doSendData
       (env0\<lparr>read_host :=
                \<lambda>k. host0\<lparr>Exchange := StatOk (stat0\<lparr>DataSent := 1500, DataReceived := 2600\<rparr>)\<rparr>,
             rpc_UpdateMetrics := \<lambda>k. Some ''unavailable''\<rparr>) (dc0, w0)))) = 1
   \<and> TotalDown (fst (snd (doSendData
       (env0\<lparr>read_host :=
                \<lambda>k. host0\<lparr>Exchange := StatOk (stat0\<lparr>DataSent := 1500, DataReceived := 2600\<rparr>)\<rparr>,
             rpc_UpdateMetrics := \<lambda>k. Some ''unavailable''\<rparr>) (dc0, w0)))) = 2"
  using totals_in_kilobytes
    [of "env0\<lparr>read_host :=
                \<lambda>k. host0\<lparr>Exchange := StatOk (stat0\<lparr>DataSent := 1500, DataReceived := 2600\<rparr>)\<rparr>,
              rpc_UpdateMetrics := \<lambda>k. Some ''unavailable''\<rparr>"
        w0 "stat0\<lparr>DataSent := 1500, DataReceived := 2600\<rparr>" dc0]
  by (simp add: agent_simps fixture_simps)

text \<open>
  C4. The claim: over a non-decreasing sequence of raw counters the interval
  values sum to the last counter minus the first. The code subtracts the
  stored total, which is in kilobytes, from the new counter, which is in
  bytes. A fresh agent that reads a counter of 1048576 bytes twice, with
  nothing sent in between, reports 1024 KB for the first interval and 1023 KB
  for the second; the claim gives 0 for the second.
\<close>

theorem idle_counter_reports_upload:
  "uploads dc0 [stat0\<lparr>DataSent := 1048576\<rparr>, stat0\<lparr>DataSent := 1048576\<rparr>] = [1024, 1023]
   \<and> sum_list (uploads (update_from_stat (stat0\<lparr>DataSent := 1048576\<rparr>) dc0)
                 [stat0\<lparr>DataSent := 1048576\<rparr>]) \<noteq> 1048576 - 1048576"
  by (simp add: update_from_stat_def stat0_def dc0_def kilobyte_def valOrZero_def)

text \<open>
  C10. \<open>valOrZero\<close> is the identity on \<open>uint64\<close>: the branch \<open>x < 0\<close> is never
  taken. The subtraction that feeds it in \<open>update\<close> therefore wraps modulo
  \<open>2 ^ 64\<close> when the stored total exceeds the new counter, and the interval
  value is that wrapped difference divided by 1024.
\<close>

theorem valOrZero_identity_wraps:
  "valOrZero x = x
   \<and> unat (valOrZero (a - b)) = (2 ^ 64 + unat a - unat b) mod 2 ^ 64
   \<and> Upload (update_from_stat st dc) = (DataSent st - TotalUp dc) div kilobyte
   \<and> Download (update_from_stat st dc) = (DataReceived st - TotalDown dc) div kilobyte"
  by (simp add: valOrZero_id unat_sub_wraps update_from_stat_def)

subsection \<open>Retrying\<close>

text \<open>
  C6. The claim: an operation that fails at every invocation is invoked
  exactly 3 times. \<open>maxRetryTimes\<close> bounds the retries, not the attempts: such
  an operation is invoked 4 times.
\<close>

theorem always_failing_op_not_three:
  "fst (retry (counted always_fails) (0, 0)) \<noteq> 3"
  by (simp add: retry_simps counted_def always_fails_def)

text \<open>
  C6, as amended. An operation that fails on its first two invocations and
  succeeds on the third is invoked exactly 3 times and \<open>backoff.Retry\<close> returns
  \<open>nil\<close>. An operation that fails on every invocation is invoked exactly 4
  times, the first attempt and \<open>maxRetryTimes = 3\<close> retries; \<open>backoff.Retry\<close>
  then returns, with the last error, and \<open>retry\<close> returns only the state.
\<close>

theorem retry_three_then_four:
  "(f s0 = (Some e1, s1) \<and> f s1 = (Some e2, s2) \<and> f s2 = (None, s3) \<longrightarrow>
      Retry (counted f) (WithMaxRetries maxRetryTimes) (0, s0) = Some (None, (3, s3))
      \<and> retry (counted f) (0, s0) = (3, s3))
   \<and> ((\<forall>s. fst (f s) \<noteq> None) \<longrightarrow>
      (\<exists>e s4. Retry (counted f) (WithMaxRetries maxRetryTimes) (0, s0)
                = Some (Some e, (4, s4)))
      \<and> fst (retry (counted f) (0, s0)) = 4)"
proof (intro conjI impI)
  assume h: "f s0 = (Some e1, s1) \<and> f s1 = (Some e2, s2) \<and> f s2 = (None, s3)"
  then show "Retry (counted f) (WithMaxRetries maxRetryTimes) (0, s0) = Some (None, (3, s3))"
    by (simp add: retry_simps counted_def)
  from h show "retry (counted f) (0, s0) = (3, s3)"
    by (simp add: retry_simps counted_def)
next
  assume h: "\<forall>s. fst (f s) \<noteq> None"
  obtain e1 s1 where 1: "f s0 = (Some e1, s1)" using h by (metis option.exhaust prod.collapse)
  obtain e2 s2 where 2: "f s1 = (Some e2, s2)" using h by (metis option.exhaust prod.collapse)
  obtain e3 s3 where 3: "f s2 = (Some e3, s3)" using h by (metis option.exhaust prod.collapse)
  obtain e4 s4 where 4: "f s3 = (Some e4, s4)" using h by (metis option.exhaust prod.collapse)
  show "\<exists>e s4. Retry (counted f) (WithMaxRetries maxRetryTimes) (0, s0)
                 = Some (Some e, (4, s4))"
    using 1 2 3 4 by (simp add: retry_simps counted_def)
  show "fst (retry (counted f) (0, s0)) = 4"
    using 1 2 3 4 by (simp add: retry_simps counted_def)
qed

theorem retry_three_then_four_witness:
  "fails_until 2 0 = (Some ''unavailable'', 1)
   \<and> fails_until 2 1 = (Some ''unavailable'', 2)
   \<and> fails_until 2 2 = (None, 3)
   \<and> Retry (counted (fails_until 2)) (WithMaxRetries maxRetryTimes) (0, 0)
        = Some (None, (3, 3))
   \<and> retry (counted (fails_until 2)) (0, 0) = (3, 3)
   \<and> fst (always_fails 7) \<noteq> None
   \<and> Retry (counted always_fails) (WithMaxRetries maxRetryTimes) (0, 0)
        = Some (Some ''unavailable'', (4, 4))
   \<and> fst (retry (counted always_fails) (0, 0)) = 4"
  using retry_three_then_four [of "fails_until 2" 0 "''unavailable''" 1 "''unavailable''" 2 3]
        retry_three_then_four [of always_fails 0 "''unavailable''" 1 "''unavailable''" 2 3]
  by (simp add: fails_until_def always_fails_def retry_simps counted_def)

subsection \<open>One cycle\<close>

text \<open>
  C5. The claim: when the exchange statistics cannot be read, the cycle makes
  one health-alert call and no metrics delivery. \<open>update\<close> reports the alert
  and returns, but \<open>doSendData\<close> goes on: on a host whose exchange is not a
  Bitswap, or whose \<open>Stat\<close> fails, and with a working signer and server, the
  cycle calls \<open>CollectHealth\<close> once and then \<open>UpdateMetrics\<close> once.
\<close>

theorem failed_stat_read_still_delivers:
  "map is_Dial (calls (snd (sendData
       (env0\<lparr>read_host := \<lambda>k. host0\<lparr>Exchange := NotBitswap\<rparr>\<rparr>) (dc0, w0))))
     = [True, False, True, False]
   \<and> map is_CollectHealth (calls (snd (sendData
       (env0\<lparr>read_host := \<lambda>k. host0\<lparr>Exchange := NotBitswap\<rparr>\<rparr>) (dc0, w0))))
     = [False, True, False, False]
   \<and> map is_UpdateMetrics (calls (snd (sendData
       (env0\<lparr>read_host := \<lambda>k. host0\<lparr>Exchange := NotBitswap\<rparr>\<rparr>) (dc0, w0))))
     = [False, False, False, True]
   \<and> length (filter is_CollectHealth (calls (snd (sendData
       (env0\<lparr>read_host := \<lambda>k. host0\<lparr>Exchange := NotBitswap\<rparr>\<rparr>) (dc0, w0))))) = 1
   \<and> length (filter is_UpdateMetrics (calls (snd (sendData
       (env0\<lparr>read_host := \<lambda>k. host0\<lparr>Exchange := NotBitswap\<rparr>\<rparr>) (dc0, w0))))) = 1
   \<and> length (filter is_UpdateMetrics (calls (snd (sendData
       (env0\<lparr>read_host := \<lambda>k. host0\<lparr>Exchange := StatFailed ''closed''\<rparr>\<rparr>) (dc0, w0))))) = 1"
  by (simp add: agent_simps retry_simps fixture_simps)

text \<open>
  C7. The claim: without a private key the build-and-sign step fails with a
  non-nil error. The alert is sent and nothing is delivered, but the error
  that \<open>doSendData\<close> returns is \<open>nil\<close>, for every environment whose payload
  serialises.
\<close>

theorem missing_key_returns_nil:
  "fst (doSendData (env\<lparr>PrivateKey := None, proto_Marshal := \<lambda>k. None\<rparr>) s) = None
   \<and> fst (doSendData (env0\<lparr>PrivateKey := None\<rparr>) (dc0, w0)) = None
   \<and> calls (snd (snd (doSendData (env0\<lparr>PrivateKey := None\<rparr>) (dc0, w0)))) =
       [Dial ''status.example:443'',
        CollectHealth \<lparr>n_BtfsVersion = ''1.0'',
                       n_FailurePoint = ''node's private key is null'',
                       n_NodeId = ''N1''\<rparr>]"
proof (intro conjI)
  show "fst (doSendData (env\<lparr>PrivateKey := None, proto_Marshal := \<lambda>k. None\<rparr>) s) = None"
    by (simp add: doSendData_def getPayload_def Let_def split: prod.splits)
qed (simp_all add: agent_simps retry_simps fixture_simps)

subsection \<open>The scheduler loop\<close>

text \<open>
  C8. If every read of the configuration returns a configuration whose
  consent flag is false, then after the start and any number \<open>n\<close> of ticks the
  agent is running with its counters untouched and its log of network calls
  unchanged: it has only read the configuration \<open>n + 1\<close> times.
\<close>

theorem no_consent_no_transport:
  assumes "\<And>k. \<exists>c. repo_Config env k = ConfigOk c \<and> \<not> Analytics c"
  shows "collectionAgent env n (dc, w) = Running (dc, w\<lparr>clock := clock w + Suc n\<rparr>)
         \<and> (case collectionAgent env n (dc, w) of
              Panic \<Rightarrow> False
            | Running s' \<Rightarrow> calls (snd s') = calls w)"
proof -
  have "heartbeats env (Suc n) (dc, w) = Running (dc, w\<lparr>clock := clock w + Suc n\<rparr>)"
    using assms by (rule heartbeats_no_consent)
  then show ?thesis by (simp add: collectionAgent_def)
qed

theorem no_consent_no_transport_witness:
  "repo_Config (env0\<lparr>repo_Config := \<lambda>k. ConfigOk (config0\<lparr>Analytics := False\<rparr>)\<rparr>) 3
     = ConfigOk (config0\<lparr>Analytics := False\<rparr>)
   \<and> \<not> Analytics (config0\<lparr>Analytics := False\<rparr>)
   \<and> collectionAgent (env0\<lparr>repo_Config := \<lambda>k. ConfigOk (config0\<lparr>Analytics := False\<rparr>)\<rparr>)
       5 (dc0, w0) = Running (dc0, \<lparr>clock = 6, calls = []\<rparr>)"
  using no_consent_no_transport
    [of "env0\<lparr>repo_Config := \<lambda>k. ConfigOk (config0\<lparr>Analytics := False\<rparr>)\<rparr>" 5 dc0 w0]
  by (simp add: w0_def config0_def)

text \<open>
  C9. The claim: no outcome of a tick, a failed read of the configuration
  included, crashes the scheduler loop. The loop discards the error of
  \<open>Repo.Config()\<close> and dereferences the pointer: when the read fails with a
  \<open>nil\<close> pointer the goroutine panics, at the start or at any later tick.
\<close>

theorem config_error_panics:
  "collectionAgent (env\<lparr>repo_Config := \<lambda>k. ConfigErr err None\<rparr>) n s = Panic
   \<and> collectionAgent
       (env0\<lparr>repo_Config :=
                \<lambda>k. if k = 0 then ConfigOk (config0\<lparr>Analytics := False\<rparr>)
                     else ConfigErr ''cannot access config, repo not open'' None\<rparr>)
       (Suc n) (dc, w0) = Panic"
  by (cases s) (simp add: collectionAgent_def cycle_def tick_def fixture_simps)

end
